theory Spec2Isabelle
  imports Complex_Main
begin

section \<open>Arrays\<close>

text \<open>
  The notebook works on numpy arrays of float64. A one-dimensional array is a list of
  numbers; a two-dimensional array of shape \<open>(n, m)\<close> is the list of its \<open>n\<close> rows, each
  of length \<open>m\<close>. Numbers are real numbers: rounding, overflow and NaN are not modelled,
  and the one place where the code can produce an infinity (a zero grid spacing) is an
  outcome of its own, see \<open>generate_second_derivative_matrix\<close>.
\<close>

type_synonym vec = "real list"
type_synonym matrix = "real list list"

text \<open>
  The exceptions the code can raise: \<open>IndexError\<close> from an index out of range,
  \<open>ValueError\<close> from operands that do not broadcast or a negative sample count,
  \<open>LinAlgError\<close> from \<open>np.linalg.eigh\<close>. \<open>DivideByZero\<close> is not an exception: under
  numpy's default error state a float64 division by zero gives an infinity and a
  RuntimeWarning. No real number stands for that result, so the model reports it
  as this outcome rather than as HOL's \<open>x / 0 = 0\<close>.
\<close>

datatype error = IndexError | ValueError | LinAlgError | DivideByZero

definition nrows :: "matrix \<Rightarrow> nat" where
  "nrows A = length A"

definition ncols :: "matrix \<Rightarrow> nat" where
  "ncols A = (case A of [] \<Rightarrow> 0 | r # _ \<Rightarrow> length r)"

text \<open>\<open>is_mat n m A\<close>: \<open>A\<close> is a well-formed array of shape \<open>(n, m)\<close>.\<close>

definition is_mat :: "nat \<Rightarrow> nat \<Rightarrow> matrix \<Rightarrow> bool" where
  "is_mat n m A = (length A = n \<and> list_all (\<lambda>r. length r = m) A)"

text \<open>The array of shape \<open>(n, m)\<close> whose entry \<open>(i, j)\<close> is \<open>f i j\<close>.\<close>

definition mat :: "nat \<Rightarrow> nat \<Rightarrow> (nat \<Rightarrow> nat \<Rightarrow> real) \<Rightarrow> matrix" where
  "mat n m f = map (\<lambda>i. map (\<lambda>j. f i j) [0..<m]) [0..<n]"

text \<open>\<open>np.ones(n)\<close>.\<close>

definition np_ones :: "nat \<Rightarrow> vec" where
  "np_ones n = replicate n 1"

text \<open>
  \<open>np.diag(v, k)\<close> for a one-dimensional \<open>v\<close>: the square array of side
  \<open>len(v) + |k|\<close> with \<open>v\<close> on the \<open>k\<close>-th diagonal (entries \<open>(i, i + k)\<close>) and zero
  elsewhere.
\<close>

definition np_diag :: "vec \<Rightarrow> int \<Rightarrow> matrix" where
  "np_diag v k =
     (let n = length v + nat \<bar>k\<bar>
      in mat n n (\<lambda>i j. if int j = int i + k then v ! (if 0 \<le> k then i else j) else 0))"

text \<open>
  Broadcasting of one dimension: two sizes are compatible when they are equal or one of
  them is 1; the result has the other size.
\<close>

definition bdim :: "nat \<Rightarrow> nat \<Rightarrow> nat option" where
  "bdim a b = (if a = b then Some a else if a = 1 then Some b else if b = 1 then Some a else None)"

text \<open>The entry of \<open>A\<close> that broadcasting puts at position \<open>(i, j)\<close>.\<close>

definition bget :: "matrix \<Rightarrow> nat \<Rightarrow> nat \<Rightarrow> real" where
  "bget A i j = A ! (if nrows A = 1 then 0 else i) ! (if ncols A = 1 then 0 else j)"

text \<open>
  \<open>A + B\<close> on two-dimensional arrays: a new array, the elementwise sum after
  broadcasting; \<open>ValueError\<close> when the shapes do not broadcast.
\<close>

definition np_add :: "matrix \<Rightarrow> matrix \<Rightarrow> error + matrix" where
  "np_add A B =
     (case (bdim (nrows A) (nrows B), bdim (ncols A) (ncols B)) of
        (Some r, Some c) \<Rightarrow> Inr (mat r c (\<lambda>i j. bget A i j + bget B i j))
      | _ \<Rightarrow> Inl ValueError)"

text \<open>A chain \<open>X + B\<close> whose left operand \<open>X\<close> may already have raised.\<close>

fun np_add_r :: "error + matrix \<Rightarrow> matrix \<Rightarrow> error + matrix" where
  "np_add_r (Inl e) B = Inl e"
| "np_add_r (Inr A) B = np_add A B"

text \<open>\<open>-A\<close> and \<open>alpha * A\<close>: new arrays, elementwise.\<close>

definition np_neg :: "matrix \<Rightarrow> matrix" where
  "np_neg A = map (map uminus) A"

definition np_smul :: "real \<Rightarrow> matrix \<Rightarrow> matrix" where
  "np_smul alpha A = map (map (\<lambda>x. alpha * x)) A"

text \<open>\<open>A.T\<close> of a well-formed two-dimensional array.\<close>

definition np_T :: "matrix \<Rightarrow> matrix" where
  "np_T A = mat (ncols A) (nrows A) (\<lambda>i j. A ! j ! i)"

text \<open>\<open>xs[0]\<close>: the first element, \<open>IndexError\<close> on an empty array.\<close>

definition index0 :: "'a list \<Rightarrow> error + 'a" where
  "index0 xs = (case xs of [] \<Rightarrow> Inl IndexError | x # _ \<Rightarrow> Inr x)"


section \<open>The operators of the notebook\<close>

text \<open>
  \<^verbatim>\<open>
  def generate_second_derivative_matrix(xgrid):
      N = len(xgrid)
      dx = xgrid[1]-xgrid[0]
      main_diag = np.ones(N) * (-5.0 /2 / dx**2)
      off_diag = np.ones(N - 1)* 4/3 / dx**2
      off_diag2 = np.ones(N - 2) * (-1.0 / (12 * dx**2))
      D2 = np.diag(main_diag) + np.diag(off_diag, k=1) + np.diag(off_diag, k=-1)
           + np.diag(off_diag2, k=2) + np.diag(off_diag2, k=-2)
      return D2
  \<close>
  \<open>xgrid[1]\<close> raises \<open>IndexError\<close> on a grid of fewer than two points. With \<open>dx = 0\<close>
  the three divisions give infinities (outcome \<open>DivideByZero\<close>). The sum associates to
  the left.
\<close>

definition generate_second_derivative_matrix :: "vec \<Rightarrow> error + matrix" where
  "generate_second_derivative_matrix xgrid =
     (let N = length xgrid in
      if N < 2 then Inl IndexError
      else
        let dx = xgrid ! 1 - xgrid ! 0 in
        if dx = 0 then Inl DivideByZero
        else
          let main_diag = map (\<lambda>x. x * (- 5 / 2 / dx ^ 2)) (np_ones N);
              off_diag = map (\<lambda>x. x * 4 / 3 / dx ^ 2) (np_ones (N - 1));
              off_diag2 = map (\<lambda>x. x * (- 1 / (12 * dx ^ 2))) (np_ones (N - 2))
          in np_add_r (np_add_r (np_add_r
               (np_add (np_diag main_diag 0) (np_diag off_diag 1))
               (np_diag off_diag (- 1)))
               (np_diag off_diag2 2))
               (np_diag off_diag2 (- 2)))"

text \<open>
  \<^verbatim>\<open>
  def generate_potential_matrix(xgrid):
      return np.diag(xgrid**2)
  \<close>
\<close>

definition generate_potential_matrix :: "vec \<Rightarrow> matrix" where
  "generate_potential_matrix xgrid = np_diag (map (\<lambda>x. x ^ 2) xgrid) 0"


text \<open>
  \<^verbatim>\<open>
  x = np.linspace(-x_max, x_max, N_grid)
  \<close>
  \<open>np.linspace(start, stop, num)\<close> is numpy's: it raises \<open>ValueError\<close> for a negative
  \<open>num\<close>, and otherwise returns \<open>num\<close> samples \<open>start + i * step\<close> with
  \<open>step = (stop - start) / (num - 1)\<close>, the last one overwritten by \<open>stop\<close> when
  \<open>num > 1\<close>. With \<open>num = 1\<close> there is no step and the one sample is \<open>start\<close>.
\<close>

definition np_linspace :: "real \<Rightarrow> real \<Rightarrow> int \<Rightarrow> error + vec" where
  "np_linspace start stop num =
     (if num < 0 then Inl ValueError
      else
        let n = nat num;
            delta = stop - start;
            y = (if 0 < num - 1
                 then map (\<lambda>i. real i * (delta / real_of_int (num - 1)) + start) [0..<n]
                 else map (\<lambda>i. real i * delta + start) [0..<n])
        in Inr (if 1 < num then y[n - 1 := stop] else y))"

text \<open>The grid set-up of the notebook, as a function of \<open>x_max\<close> and \<open>N_grid\<close>.\<close>

definition buildGrid :: "real \<Rightarrow> int \<Rightarrow> error + vec" where
  "buildGrid x_max N_grid = np_linspace (- x_max) x_max N_grid"

text \<open>
  \<^verbatim>\<open>
  def HO_solver(alpha,D2Mat,vpot):
      H = -D2Mat + alpha*vpot
      evals,evects = np.linalg.eigh(H)
      return [evals[0],evects.T[0]]
  \<close>
  \<open>np.linalg.eigh\<close> is numpy's wrapper of a LAPACK routine. It is a parameter \<open>eigh\<close> of
  the model: a function from the array it is given to either an error or the pair of the
  eigenvalue array and the eigenvector array. What is known of it is stated where it is
  used, as a hypothesis.
\<close>

type_synonym eigh_fun = "matrix \<Rightarrow> error + vec \<times> matrix"

definition HO_solver :: "eigh_fun \<Rightarrow> real \<Rightarrow> matrix \<Rightarrow> matrix \<Rightarrow> error + real \<times> vec" where
  "HO_solver eigh alpha D2Mat vpot =
     (case np_add (np_neg D2Mat) (np_smul alpha vpot) of
        Inl e \<Rightarrow> Inl e
      | Inr H \<Rightarrow>
          (case eigh H of
             Inl e \<Rightarrow> Inl e
           | Inr (evals, evects) \<Rightarrow>
               (case index0 evals of
                  Inl e \<Rightarrow> Inl e
                | Inr e0 \<Rightarrow>
                    (case index0 (np_T evects) of
                       Inl e \<Rightarrow> Inl e
                     | Inr v0 \<Rightarrow> Inr (e0, v0)))))"


section \<open>The solver on a store of arrays\<close>

text \<open>
  Python passes arrays by reference. To state what a call does to the arrays of its
  caller, the arrays live in a store: \<open>cells\<close> maps an address to the array it holds and
  the addresses below \<open>fresh\<close> are the allocated ones. Each of \<open>-D2Mat\<close>,
  \<open>alpha*vpot\<close> and \<open>+\<close> creates a new array, which \<open>alloc\<close> puts at the next free
  address; the body of \<open>HO_solver\<close> has no assignment to an element, no in-place operator
  and no global. \<open>np.linalg.eigh\<close> works on a copy of its argument; the two arrays it
  returns are new and reachable from the result only, so they are carried as values.
  An exception leaves the store as it was when it was raised.
\<close>

record store =
  cells :: "nat \<Rightarrow> matrix"
  fresh :: nat

definition alloc :: "matrix \<Rightarrow> store \<Rightarrow> nat \<times> store" where
  "alloc A s = (fresh s, s\<lparr>cells := (cells s)(fresh s := A), fresh := Suc (fresh s)\<rparr>)"

definition HO_solver_st ::
  "eigh_fun \<Rightarrow> real \<Rightarrow> nat \<Rightarrow> nat \<Rightarrow> store \<Rightarrow> (error + real \<times> vec) \<times> store" where
  "HO_solver_st eigh alpha D2Mat vpot s =
     (let (t1, s1) = alloc (np_neg (cells s D2Mat)) s;
          (t2, s2) = alloc (np_smul alpha (cells s1 vpot)) s1
      in case np_add (cells s2 t1) (cells s2 t2) of
           Inl e \<Rightarrow> (Inl e, s2)
         | Inr A \<Rightarrow>
             (let (H, s3) = alloc A s2
              in case eigh (cells s3 H) of
                   Inl e \<Rightarrow> (Inl e, s3)
                 | Inr (evals, evects) \<Rightarrow>
                     (case index0 evals of
                        Inl e \<Rightarrow> (Inl e, s3)
                      | Inr e0 \<Rightarrow>
                          (case index0 (np_T evects) of
                             Inl e \<Rightarrow> (Inl e, s3)
                           | Inr v0 \<Rightarrow> (Inr (e0, v0), s3)))))"


section \<open>The notions of the specification\<close>

text \<open>
  A uniform grid with spacing \<open>dx\<close>: consecutive points differ by \<open>dx\<close>.
\<close>

definition uniform_grid :: "vec \<Rightarrow> real \<Rightarrow> bool" where
  "uniform_grid xgrid dx =
     list_all (\<lambda>i. xgrid ! (i + 1) - xgrid ! i = dx) [0..<length xgrid - 1]"

text \<open>
  The five-point stencil of the specification: \<open>-5/(2 dx\<^sup>2)\<close> on the main diagonal,
  \<open>4/(3 dx\<^sup>2)\<close> on the diagonals \<open>\<plusminus>1\<close>, \<open>-1/(12 dx\<^sup>2)\<close> on the diagonals \<open>\<plusminus>2\<close>, zero
  elsewhere.
\<close>

definition five_point :: "real \<Rightarrow> nat \<Rightarrow> nat \<Rightarrow> real" where
  "five_point dx i j =
     (if i = j then - 5 / (2 * dx ^ 2)
      else if j = i + 1 \<or> i = j + 1 then 4 / (3 * dx ^ 2)
      else if j = i + 2 \<or> i = j + 2 then - 1 / (12 * dx ^ 2)
      else 0)"

text \<open>The Hamiltonian \<open>H = -D2 + alpha * V\<close> of two arrays of the same shape \<open>(n, n)\<close>.\<close>

definition Hamiltonian :: "nat \<Rightarrow> real \<Rightarrow> matrix \<Rightarrow> matrix \<Rightarrow> matrix" where
  "Hamiltonian n alpha D2 V = mat n n (\<lambda>i j. - (D2 ! i ! j) + alpha * (V ! i ! j))"

text \<open>Matrix times vector, a column of an array, the Euclidean norm.\<close>

definition dot :: "vec \<Rightarrow> vec \<Rightarrow> real" where
  "dot u v = sum_list (map2 (*) u v)"

definition mat_vec :: "matrix \<Rightarrow> vec \<Rightarrow> vec" where
  "mat_vec A v = map (\<lambda>r. dot r v) A"

definition column :: "matrix \<Rightarrow> nat \<Rightarrow> vec" where
  "column A k = map (\<lambda>r. r ! k) A"

definition norm2 :: "vec \<Rightarrow> real" where
  "norm2 v = sqrt (dot v v)"

text \<open>\<open>v\<close> is an eigenvector of \<open>H\<close> for the eigenvalue \<open>lam\<close>.\<close>

definition eigenpair :: "matrix \<Rightarrow> real \<Rightarrow> vec \<Rightarrow> bool" where
  "eigenpair H lam v =
     (length v = length H \<and> list_ex (\<lambda>x. x \<noteq> 0) v \<and> mat_vec H v = map (\<lambda>x. lam * x) v)"

text \<open>\<open>lam\<close> is the minimum eigenvalue of \<open>H\<close>.\<close>

definition min_eigenvalue :: "matrix \<Rightarrow> real \<Rightarrow> bool" where
  "min_eigenvalue H lam =
     ((\<exists>v. eigenpair H lam v) \<and> (\<forall>mu w. eigenpair H mu w \<longrightarrow> lam \<le> mu))"

text \<open>
  What the documentation of \<open>np.linalg.eigh\<close> promises of its result on a real symmetric
  \<open>H\<close> of shape \<open>(n, n)\<close>: \<open>evals\<close> holds the eigenvalues of \<open>H\<close> in ascending order, and
  column \<open>k\<close> of \<open>evects\<close> is an eigenvector for \<open>evals[k]\<close>.
\<close>

definition eigh_result :: "matrix \<Rightarrow> vec \<Rightarrow> matrix \<Rightarrow> bool" where
  "eigh_result H evals evects =
     (length evals = length H \<and> is_mat (length H) (length H) evects \<and> sorted evals \<and>
      (\<forall>k<length H. eigenpair H (evals ! k) (column evects k)) \<and>
      (\<forall>lam v. eigenpair H lam v \<longrightarrow> lam \<in> set evals))"

text \<open>\<open>eigh\<close> keeps that promise at the symmetric array \<open>H\<close>.\<close>

definition eigh_spec :: "eigh_fun \<Rightarrow> matrix \<Rightarrow> bool" where
  "eigh_spec eigh H =
     (is_mat (length H) (length H) H \<and> np_T H = H \<longrightarrow>
        (\<exists>evals evects. eigh H = Inr (evals, evects) \<and> eigh_result H evals evects))"

text \<open>Every column of \<open>evects\<close> has Euclidean norm 1 within \<open>tol\<close>.\<close>

definition unit_columns :: "real \<Rightarrow> matrix \<Rightarrow> bool" where
  "unit_columns tol evects = (\<forall>k<ncols evects. \<bar>norm2 (column evects k) - 1\<bar> \<le> tol)"



text \<open>A diagonal array: every entry off the main diagonal is zero.\<close>

definition is_diagonal :: "matrix \<Rightarrow> bool" where
  "is_diagonal A =
     list_all (\<lambda>i. list_all (\<lambda>j. i = j \<or> A ! i ! j = 0) [0..<length (A ! i)]) [0..<length A]"


section \<open>Sample inputs\<close>

text \<open>
  A symmetric \<open>D2\<close> of shape \<open>(2, 2)\<close>; with the potential of the grid \<open>[-1, 1]\<close> and
  \<open>alpha = 1\<close> the Hamiltonian is \<open>[[41/25, -12/25], [-12/25, 34/25]]\<close>, whose
  eigenvalues are 1 and 2 with the unit eigenvectors \<open>(3/5, 4/5)\<close> and \<open>(-4/5, 3/5)\<close>.
  \<open>sample_eigh\<close> returns that decomposition at that array, the eigenvectors as columns,
  and fails elsewhere.
\<close>

definition sample_D2 :: matrix where
  "sample_D2 = [[- 16 / 25, 12 / 25], [12 / 25, - 9 / 25]]"

definition sample_eigh :: eigh_fun where
  "sample_eigh H =
     (if H = [[41 / 25, - 12 / 25], [- 12 / 25, 34 / 25]]
      then Inr ([1, 2], [[3 / 5, - 4 / 5], [4 / 5, 3 / 5]])
      else Inl LinAlgError)"

text \<open>A store that holds \<open>sample_D2\<close> at address 0 and the potential at address 1.\<close>

definition sample_store :: store where
  "sample_store =
     \<lparr>cells = (\<lambda>a. if a = 0 then sample_D2
                    else if a = 1 then generate_potential_matrix [- 1, 1] else []),
      fresh = 2\<rparr>"


section \<open>Shapes and entries\<close>

lemma length_mat: "length (mat n m f) = n"
  by (simp add: mat_def)

lemma nth_mat_row: "i < n \<Longrightarrow> mat n m f ! i = map (f i) [0..<m]"
  by (simp add: mat_def)

lemma nth_mat: "i < n \<Longrightarrow> j < m \<Longrightarrow> mat n m f ! i ! j = f i j"
  by (simp add: mat_def)

lemma is_mat_mat: "is_mat n m (mat n m f)"
  by (simp add: is_mat_def mat_def list_all_iff)

lemma mat_cong: "(\<And>i j. i < n \<Longrightarrow> j < m \<Longrightarrow> f i j = g i j) \<Longrightarrow> mat n m f = mat n m g"
  by (simp add: mat_def)

lemma is_mat_nrows: "is_mat n m A \<Longrightarrow> nrows A = n"
  by (simp add: is_mat_def nrows_def)

lemma is_mat_ncols: "is_mat n m A \<Longrightarrow> 0 < n \<Longrightarrow> ncols A = m"
  by (cases A) (simp_all add: is_mat_def ncols_def)

lemma is_mat_eq_mat: "is_mat n m A \<Longrightarrow> A = mat n m (\<lambda>i j. A ! i ! j)"
  by (auto simp: is_mat_def mat_def list_all_length intro!: nth_equalityI)

lemma ncols_mat: "ncols (mat n m f) = (if n = 0 then 0 else m)"
  by (cases n) (simp_all add: mat_def ncols_def upt_conv_Cons del: upt_Suc)

lemma nrows_mat: "nrows (mat n m f) = n"
  by (simp add: nrows_def mat_def)

lemma bget_mat: "i < n \<Longrightarrow> j < m \<Longrightarrow> bget (mat n m f) i j = f i j"
  by (auto simp: bget_def nrows_mat ncols_mat nth_mat)

lemma np_add_mat: "np_add (mat n m f) (mat n m g) = Inr (mat n m (\<lambda>i j. f i j + g i j))"
proof (cases "n = 0")
  case True
  then show ?thesis by (simp add: np_add_def nrows_def ncols_def bdim_def mat_def)
next
  case False
  then show ?thesis
    by (auto simp: np_add_def nrows_mat ncols_mat bdim_def bget_mat intro!: mat_cong)
qed

lemma is_mat_np_diag: "is_mat (length v + nat \<bar>k\<bar>) (length v + nat \<bar>k\<bar>) (np_diag v k)"
  by (simp add: np_diag_def Let_def is_mat_mat)


section \<open>The potential operator\<close>

text \<open>
  C6. For every grid, \<open>generate_potential_matrix\<close> returns a square array of the grid's
  size whose \<open>i\<close>-th diagonal entry is the square of the \<open>i\<close>-th grid coordinate; every
  off-diagonal entry is zero and every entry is non-negative.
\<close>

theorem generate_potential_matrix_diagonal:
  "is_mat (length xgrid) (length xgrid) (generate_potential_matrix xgrid) \<and>
   (\<forall>i<length xgrid. \<forall>j<length xgrid.
      generate_potential_matrix xgrid ! i ! j = (if i = j then (xgrid ! i) ^ 2 else 0) \<and>
      0 \<le> generate_potential_matrix xgrid ! i ! j)"
proof -
  have shape: "is_mat (length xgrid) (length xgrid) (generate_potential_matrix xgrid)"
    using is_mat_np_diag [of "map (\<lambda>x. x ^ 2) xgrid" 0]
    by (simp add: generate_potential_matrix_def)
  have entry: "generate_potential_matrix xgrid ! i ! j = (if i = j then (xgrid ! i) ^ 2 else 0)"
    if "i < length xgrid" "j < length xgrid" for i j
    using that by (simp add: generate_potential_matrix_def np_diag_def Let_def nth_mat)
  show ?thesis
    using shape entry by simp
qed

theorem generate_potential_matrix_diagonal_witness:
  "generate_potential_matrix [- 1, 0, 2] = [[1, 0, 0], [0, 0, 0], [0, 0, 4]] \<and>
   is_mat 3 3 (generate_potential_matrix [- 1, 0, 2]) \<and>
   generate_potential_matrix [- 1, 0, 2] ! 2 ! 2 = 2 ^ 2 \<and>
   generate_potential_matrix [- 1, 0, 2] ! 0 ! 2 = 0 \<and>
   0 \<le> generate_potential_matrix [- 1, 0, 2] ! 0 ! 0"
  using generate_potential_matrix_diagonal [of "[- 1, 0, 2]"]
  by (simp add: generate_potential_matrix_def np_diag_def mat_def upt_rec numeral_nat)


section \<open>The second-derivative operator\<close>

lemma np_diag_mat:
  "length v + nat \<bar>k\<bar> = n \<Longrightarrow>
   np_diag v k = mat n n (\<lambda>i j. if int j = int i + k then v ! (if 0 \<le> k then i else j) else 0)"
  by (simp add: np_diag_def Let_def)

text \<open>The five summands of \<open>D2\<close> at one position: at most one of them is not zero.\<close>

lemma stencil_sum:
  assumes "i < N" "j < N" "2 \<le> N"
  shows "(if int j = int i + 0 then replicate N a ! (if (0::int) \<le> 0 then i else j) else 0) +
         (if int j = int i + 1 then replicate (N - 1) b ! (if (0::int) \<le> 1 then i else j) else 0) +
         (if int j = int i + (- 1) then replicate (N - 1) b ! (if (0::int) \<le> - 1 then i else j) else 0) +
         (if int j = int i + 2 then replicate (N - 2) c ! (if (0::int) \<le> 2 then i else j) else 0) +
         (if int j = int i + (- 2) then replicate (N - 2) c ! (if (0::int) \<le> - 2 then i else j) else 0)
         = (if i = j then a
            else if j = i + 1 \<or> i = j + 1 then b
            else if j = i + 2 \<or> i = j + 2 then c
            else (0::real))"
proof -
  consider "i = j" | "j = i + 1" | "i = j + 1" | "j = i + 2" | "i = j + 2"
    | "i \<noteq> j" "j \<noteq> i + 1" "i \<noteq> j + 1" "j \<noteq> i + 2" "i \<noteq> j + 2"
    by blast
  then show ?thesis
  proof cases
    case 1 with assms show ?thesis by simp
  next
    case 2 with assms show ?thesis by simp
  next
    case 3 with assms show ?thesis by simp
  next
    case 4 with assms show ?thesis by simp
  next
    case 5 with assms show ?thesis by simp
  next
    case 6
    then have "int j \<noteq> int i + 0" "int j \<noteq> int i + 1" "int j \<noteq> int i + (- 1)"
      "int j \<noteq> int i + 2" "int j \<noteq> int i + (- 2)"
      by linarith+
    with 6 show ?thesis by simp
  qed
qed

text \<open>
  On a grid of at least two points whose first interval \<open>dx\<close> is not zero, the function
  returns the array of shape \<open>(N, N)\<close> with the five-point stencil in every row.
\<close>

lemma generate_second_derivative_matrix_eq:
  assumes "2 \<le> length xgrid" and "xgrid ! 1 - xgrid ! 0 = dx" and "dx \<noteq> 0"
  shows "generate_second_derivative_matrix xgrid
           = Inr (mat (length xgrid) (length xgrid) (five_point dx))"
proof -
  define N where "N = length xgrid"
  define a b c where "a = 1 * (- 5 / 2 / dx ^ 2)" and "b = 1 * 4 / 3 / dx ^ 2"
    and "c = 1 * (- 1 / (12 * dx ^ 2))"
  have N: "2 \<le> N" using assms N_def by simp
  have main: "map (\<lambda>x. x * (- 5 / 2 / dx ^ 2)) (np_ones N) = replicate N a"
    and off: "map (\<lambda>x. x * 4 / 3 / dx ^ 2) (np_ones (N - 1)) = replicate (N - 1) b"
    and off2: "map (\<lambda>x. x * (- 1 / (12 * dx ^ 2))) (np_ones (N - 2)) = replicate (N - 2) c"
    by (simp_all add: np_ones_def a_def b_def c_def)
  have d0: "np_diag (replicate N a) 0 = mat N N (\<lambda>i j. if int j = int i + 0 then replicate N a ! (if (0::int) \<le> 0 then i else j) else 0)"
    by (rule np_diag_mat) simp
  have d1: "np_diag (replicate (N - 1) b) 1 = mat N N (\<lambda>i j. if int j = int i + 1 then replicate (N - 1) b ! (if (0::int) \<le> 1 then i else j) else 0)"
    by (rule np_diag_mat) (use N in simp)
  have d1': "np_diag (replicate (N - 1) b) (- 1) = mat N N (\<lambda>i j. if int j = int i + (- 1) then replicate (N - 1) b ! (if (0::int) \<le> - 1 then i else j) else 0)"
    by (rule np_diag_mat) (use N in simp)
  have d2: "np_diag (replicate (N - 2) c) 2 = mat N N (\<lambda>i j. if int j = int i + 2 then replicate (N - 2) c ! (if (0::int) \<le> 2 then i else j) else 0)"
    by (rule np_diag_mat) (use N in simp)
  have d2': "np_diag (replicate (N - 2) c) (- 2) = mat N N (\<lambda>i j. if int j = int i + (- 2) then replicate (N - 2) c ! (if (0::int) \<le> - 2 then i else j) else 0)"
    by (rule np_diag_mat) (use N in simp)
  have abc: "a = - 5 / (2 * dx ^ 2)" "b = 4 / (3 * dx ^ 2)" "c = - 1 / (12 * dx ^ 2)"
    by (simp_all add: a_def b_def c_def)
  have "generate_second_derivative_matrix xgrid =
        np_add_r (np_add_r (np_add_r
               (np_add (np_diag (replicate N a) 0) (np_diag (replicate (N - 1) b) 1))
               (np_diag (replicate (N - 1) b) (- 1)))
               (np_diag (replicate (N - 2) c) 2))
               (np_diag (replicate (N - 2) c) (- 2))"
    unfolding generate_second_derivative_matrix_def Let_def N_def [symmetric] assms(2) main off off2
    using N assms(3) by simp
  also have "\<dots> = Inr (mat N N (five_point dx))"
    unfolding d0 d1 d1' d2 d2' np_add_mat np_add_r.simps
    apply (rule arg_cong [where f = Inr])
    apply (rule mat_cong)
    apply (subst stencil_sum)
    using N apply (simp_all add: five_point_def abc)
    done
  finally show ?thesis by (simp add: N_def)
qed

lemma uniform_grid_first:
  "uniform_grid xgrid dx \<Longrightarrow> 2 \<le> length xgrid \<Longrightarrow> xgrid ! 1 - xgrid ! 0 = dx"
  by (simp add: uniform_grid_def list_all_length)

lemma five_point_sym: "five_point dx i j = five_point dx j i"
  by (auto simp: five_point_def)

lemma np_T_mat: "0 < n \<Longrightarrow> np_T (mat n n f) = mat n n (\<lambda>i j. f j i)"
  by (auto simp: np_T_def ncols_mat nrows_mat nth_mat intro!: mat_cong)

text \<open>
  C2. For every uniform grid of \<open>N \<ge> 5\<close> points with spacing \<open>dx\<close>, the function
  returns an array of shape \<open>(N, N)\<close> whose entry is \<open>-5/(2 dx\<^sup>2)\<close> on the main diagonal,
  \<open>4/(3 dx\<^sup>2)\<close> on the diagonals \<open>\<plusminus>1\<close>, \<open>-1/(12 dx\<^sup>2)\<close> on the diagonals \<open>\<plusminus>2\<close> and
  zero everywhere else. The rows at the boundary hold the part of the stencil that falls
  inside the array and nothing more: no entry wraps around or is reflected. A spacing
  is a non-zero number.
\<close>

theorem generate_second_derivative_matrix_stencil:
  assumes "5 \<le> length xgrid" and "uniform_grid xgrid dx" and "dx \<noteq> 0"
  shows "\<exists>D2. generate_second_derivative_matrix xgrid = Inr D2 \<and>
           is_mat (length xgrid) (length xgrid) D2 \<and>
           (\<forall>i<length xgrid. \<forall>j<length xgrid.
              D2 ! i ! j =
                (if i = j then - 5 / (2 * dx ^ 2)
                 else if j = i + 1 \<or> i = j + 1 then 4 / (3 * dx ^ 2)
                 else if j = i + 2 \<or> i = j + 2 then - 1 / (12 * dx ^ 2)
                 else 0))"
proof -
  have "xgrid ! 1 - xgrid ! 0 = dx"
    by (rule uniform_grid_first) (use assms in simp_all)
  then have "generate_second_derivative_matrix xgrid
               = Inr (mat (length xgrid) (length xgrid) (five_point dx))"
    by (rule generate_second_derivative_matrix_eq [rotated]) (use assms in simp_all)
  then show ?thesis
    by (simp add: is_mat_mat nth_mat five_point_def)
qed

theorem generate_second_derivative_matrix_stencil_witness:
  "5 \<le> length [- 1, - 1 / 2, 0, 1 / 2, 1 :: real] \<and>
   uniform_grid [- 1, - 1 / 2, 0, 1 / 2, 1] (1 / 2) \<and>
   generate_second_derivative_matrix [- 1, - 1 / 2, 0, 1 / 2, 1] =
     Inr [[- 10, 16 / 3, - 1 / 3, 0, 0],
          [16 / 3, - 10, 16 / 3, - 1 / 3, 0],
          [- 1 / 3, 16 / 3, - 10, 16 / 3, - 1 / 3],
          [0, - 1 / 3, 16 / 3, - 10, 16 / 3],
          [0, 0, - 1 / 3, 16 / 3, - 10]]"
proof -
  have u: "uniform_grid [- 1, - 1 / 2, 0, 1 / 2, 1] (1 / 2)"
    by (simp add: uniform_grid_def upt_rec numeral_nat)
  have n: "5 \<le> length [- 1, - 1 / 2, 0, 1 / 2, 1 :: real]"
    by simp
  have "generate_second_derivative_matrix [- 1, - 1 / 2, 0, 1 / 2, 1]
          = Inr (mat 5 5 (five_point (1 / 2)))"
    using generate_second_derivative_matrix_eq [of "[- 1, - 1 / 2, 0, 1 / 2, 1]" "1 / 2"]
    by (simp add: eval_nat_numeral)
  also have "mat 5 5 (five_point (1 / 2)) =
         [[- 10, 16 / 3, - 1 / 3, 0, 0],
          [16 / 3, - 10, 16 / 3, - 1 / 3, 0],
          [- 1 / 3, 16 / 3, - 10, 16 / 3, - 1 / 3],
          [0, - 1 / 3, 16 / 3, - 10, 16 / 3],
          [0, 0, - 1 / 3, 16 / 3, - 10]]"
    by (simp add: mat_def five_point_def upt_rec numeral_nat power2_eq_square)
  finally show ?thesis
    using generate_second_derivative_matrix_stencil [OF n u] u n by simp
qed

text \<open>
  C5. For every uniform grid with \<open>N \<ge> 5\<close> points, the array \<open>D2\<close> that
  \<open>generate_second_derivative_matrix\<close> returns equals its own transpose, entry by
  entry.
\<close>

theorem generate_second_derivative_matrix_symmetric:
  assumes "5 \<le> length xgrid" and "uniform_grid xgrid dx" and "dx \<noteq> 0"
  shows "\<exists>D2. generate_second_derivative_matrix xgrid = Inr D2 \<and> np_T D2 = D2 \<and>
           (\<forall>i<length xgrid. \<forall>j<length xgrid. D2 ! i ! j = D2 ! j ! i)"
proof -
  let ?N = "length xgrid"
  have "xgrid ! 1 - xgrid ! 0 = dx"
    by (rule uniform_grid_first) (use assms in simp_all)
  then have D2: "generate_second_derivative_matrix xgrid = Inr (mat ?N ?N (five_point dx))"
    by (rule generate_second_derivative_matrix_eq [rotated]) (use assms in simp_all)
  have "np_T (mat ?N ?N (five_point dx)) = mat ?N ?N (\<lambda>i j. five_point dx j i)"
    by (rule np_T_mat) (use assms in auto)
  also have "\<dots> = mat ?N ?N (five_point dx)"
    by (rule mat_cong) (rule five_point_sym)
  finally have T: "np_T (mat ?N ?N (five_point dx)) = mat ?N ?N (five_point dx)" .
  have "mat ?N ?N (five_point dx) ! i ! j = mat ?N ?N (five_point dx) ! j ! i"
    if "i < ?N" "j < ?N" for i j
    using that by (simp add: nth_mat five_point_sym [of dx i j])
  with D2 T show ?thesis by simp
qed

theorem generate_second_derivative_matrix_symmetric_witness:
  "5 \<le> length [0, 1, 2, 3, 4, 5 :: real] \<and> uniform_grid [0, 1, 2, 3, 4, 5] 1 \<and>
   (\<exists>D2. generate_second_derivative_matrix [0, 1, 2, 3, 4, 5] = Inr D2 \<and> np_T D2 = D2 \<and>
      D2 ! 0 ! 1 = D2 ! 1 ! 0 \<and> D2 ! 1 ! 0 = 4 / 3 \<and> D2 ! 5 ! 3 = D2 ! 3 ! 5 \<and>
      D2 ! 3 ! 5 = - 1 / 12)"
proof -
  have u: "uniform_grid [0, 1, 2, 3, 4, 5] 1"
    by (simp add: uniform_grid_def upt_rec numeral_nat)
  have n: "5 \<le> length [0, 1, 2, 3, 4, 5 :: real]"
    by simp
  have e: "generate_second_derivative_matrix [0, 1, 2, 3, 4, 5] = Inr (mat 6 6 (five_point 1))"
    using generate_second_derivative_matrix_eq [of "[0, 1, 2, 3, 4, 5]" 1]
    by (simp add: eval_nat_numeral)
  obtain D2 where D2: "generate_second_derivative_matrix [0, 1, 2, 3, 4, 5] = Inr D2"
    and T: "np_T D2 = D2"
    using generate_second_derivative_matrix_symmetric [OF n u] by auto
  from D2 e have "D2 = mat 6 6 (five_point 1)" by simp
  then have "D2 ! 0 ! 1 = 4 / 3" "D2 ! 1 ! 0 = 4 / 3" "D2 ! 5 ! 3 = - 1 / 12" "D2 ! 3 ! 5 = - 1 / 12"
    by (simp_all add: nth_mat five_point_def)
  with D2 T u n show ?thesis by simp
qed

text \<open>
  C10. The result of \<open>generate_second_derivative_matrix\<close> depends only on the length of
  the grid and on the difference of its first two points: two grids of the same length
  \<open>N \<ge> 2\<close> with the same first interval give the same result, whatever their other
  points are.
\<close>

theorem generate_second_derivative_matrix_first_interval:
  assumes "length xgridA = length xgridB" and "2 \<le> length xgridA"
    and "xgridA ! 1 - xgridA ! 0 = xgridB ! 1 - xgridB ! 0"
  shows "generate_second_derivative_matrix xgridA = generate_second_derivative_matrix xgridB"
  using assms by (simp add: generate_second_derivative_matrix_def Let_def)

theorem generate_second_derivative_matrix_first_interval_witness:
  "length [0, 1, 5 :: real] = length [3, 4, 5 :: real] \<and> 2 \<le> length [0, 1, 5 :: real] \<and>
   [0, 1, 5 :: real] ! 1 - [0, 1, 5] ! 0 = [3, 4, 5] ! 1 - [3, 4, 5] ! 0 \<and>
   \<not> uniform_grid [0, 1, 5] 1 \<and> uniform_grid [3, 4, 5] 1 \<and>
   generate_second_derivative_matrix [0, 1, 5] = generate_second_derivative_matrix [3, 4, 5] \<and>
   generate_second_derivative_matrix [3, 4, 5] =
     Inr [[- 5 / 2, 4 / 3, - 1 / 12], [4 / 3, - 5 / 2, 4 / 3], [- 1 / 12, 4 / 3, - 5 / 2]]"
proof -
  have "generate_second_derivative_matrix [3, 4, 5] = Inr (mat 3 3 (five_point 1))"
    using generate_second_derivative_matrix_eq [of "[3, 4, 5]" 1]
    by (simp add: eval_nat_numeral)
  also have "mat 3 3 (five_point 1)
      = [[- 5 / 2, 4 / 3, - 1 / 12], [4 / 3, - 5 / 2, 4 / 3], [- 1 / 12, 4 / 3, - 5 / 2]]"
    by (simp add: mat_def five_point_def upt_rec numeral_nat)
  finally show ?thesis
    using generate_second_derivative_matrix_first_interval [of "[0, 1, 5]" "[3, 4, 5]"]
    by (simp add: uniform_grid_def upt_rec numeral_nat)
qed


section \<open>The grid\<close>

lemma np_linspace_neg: "num < 0 \<Longrightarrow> np_linspace start stop num = Inl ValueError"
  by (simp add: np_linspace_def)

lemma np_linspace_length:
  "0 \<le> num \<Longrightarrow> \<exists>g. np_linspace start stop num = Inr g \<and> length g = nat num"
  by (simp add: np_linspace_def Let_def)

lemma buildGrid_5:
  "buildGrid x_max 5 = Inr [- x_max, 1 * (2 * x_max / 4) - x_max, 2 * (2 * x_max / 4) - x_max,
     3 * (2 * x_max / 4) - x_max, x_max]"
  by (simp add: buildGrid_def np_linspace_def Let_def upt_rec numeral_nat)

text \<open>
  The claim C3 as stated, that grid construction with \<open>N = 4\<close> fails, is false: the
  notebook's grid set-up returns a grid of four points.
\<close>

theorem buildGrid_four_points_counterexample:
  "buildGrid 10 4 = Inr [- 10, - 10 / 3, 10 / 3, 10]"
  by (simp add: buildGrid_def np_linspace_def Let_def upt_rec numeral_nat)

text \<open>
  C3, amended. The grid set-up has no check of \<open>N \<ge> 5\<close> or of \<open>x_max > 0\<close>: it fails
  only for \<open>N < 0\<close>, with numpy's \<open>ValueError\<close>, and returns a grid of \<open>N\<close> points for
  every \<open>N \<ge> 0\<close> and every \<open>x_max\<close>. With \<open>N = 5\<close> and \<open>x_max \<noteq> 0\<close> it succeeds and
  the stencil construction on the resulting grid returns a matrix.
\<close>

theorem buildGrid_no_argument_check:
  "(N < 0 \<longrightarrow> buildGrid x_max N = Inl ValueError) \<and>
   (0 \<le> N \<longrightarrow> (\<exists>g. buildGrid x_max N = Inr g \<and> length g = nat N)) \<and>
   (x_max \<noteq> 0 \<longrightarrow>
      (\<exists>g D2. buildGrid x_max 5 = Inr g \<and> generate_second_derivative_matrix g = Inr D2))"
proof (intro conjI impI)
  assume "N < 0"
  then show "buildGrid x_max N = Inl ValueError"
    by (simp add: buildGrid_def np_linspace_neg)
next
  assume "0 \<le> N"
  then show "\<exists>g. buildGrid x_max N = Inr g \<and> length g = nat N"
    unfolding buildGrid_def by (rule np_linspace_length)
next
  assume x: "x_max \<noteq> 0"
  let ?g = "[- x_max, 1 * (2 * x_max / 4) - x_max, 2 * (2 * x_max / 4) - x_max,
     3 * (2 * x_max / 4) - x_max, x_max]"
  have "generate_second_derivative_matrix ?g = Inr (mat (length ?g) (length ?g) (five_point (x_max / 2)))"
    by (rule generate_second_derivative_matrix_eq) (use x in simp_all)
  then show "\<exists>g D2. buildGrid x_max 5 = Inr g \<and> generate_second_derivative_matrix g = Inr D2"
    using buildGrid_5 [of x_max] by blast
qed

theorem buildGrid_no_argument_check_witness:
  "buildGrid 10 (- 1) = Inl ValueError \<and>
   buildGrid (- 1) 3 = Inr [1, 0, - 1] \<and>
   buildGrid 10 5 = Inr [- 10, - 5, 0, 5, 10] \<and>
   (\<exists>D2. generate_second_derivative_matrix [- 10, - 5, 0, 5, 10] = Inr D2)"
  using buildGrid_no_argument_check [of "- 1" 10] buildGrid_no_argument_check [of 5 10]
  by (simp add: buildGrid_def np_linspace_def Let_def upt_rec numeral_nat)


section \<open>The solver\<close>





lemma np_neg_mat: "np_neg (mat n m f) = mat n m (\<lambda>i j. - f i j)"
  by (simp add: np_neg_def mat_def)

lemma np_smul_mat: "np_smul alpha (mat n m f) = mat n m (\<lambda>i j. alpha * f i j)"
  by (simp add: np_smul_def mat_def)

lemma np_add_Hamiltonian:
  assumes "is_mat n n D2" "is_mat n n V"
  shows "np_add (np_neg D2) (np_smul alpha V) = Inr (Hamiltonian n alpha D2 V)"
proof -
  have "np_add (np_neg (mat n n (\<lambda>i j. D2 ! i ! j))) (np_smul alpha (mat n n (\<lambda>i j. V ! i ! j)))
        = Inr (Hamiltonian n alpha D2 V)"
    by (simp add: np_neg_mat np_smul_mat np_add_mat Hamiltonian_def)
  then show ?thesis
    using is_mat_eq_mat [OF assms(1)] is_mat_eq_mat [OF assms(2)] by simp
qed

lemma np_T_sym_entry:
  assumes "is_mat n n A" "np_T A = A" "i < n" "j < n"
  shows "A ! i ! j = A ! j ! i"
proof -
  have "0 < n" using assms by simp
  then have "np_T A = mat n n (\<lambda>i j. A ! j ! i)"
    using assms(1) by (simp add: np_T_def is_mat_nrows is_mat_ncols)
  then have "A ! i ! j = mat n n (\<lambda>i j. A ! j ! i) ! i ! j"
    using assms(2) by simp
  then show ?thesis using assms by (simp add: nth_mat)
qed

lemma Hamiltonian_symmetric:
  assumes "0 < n" "is_mat n n D2" "is_mat n n V" "np_T D2 = D2" "np_T V = V"
  shows "np_T (Hamiltonian n alpha D2 V) = Hamiltonian n alpha D2 V"
  unfolding Hamiltonian_def np_T_mat [OF assms(1)]
  by (rule mat_cong)
    (simp add: np_T_sym_entry [OF assms(2) assms(4)] np_T_sym_entry [OF assms(3) assms(5)])

lemma length_Hamiltonian: "length (Hamiltonian n alpha D2 V) = n"
  by (simp add: Hamiltonian_def length_mat)

lemma is_mat_Hamiltonian: "is_mat n n (Hamiltonian n alpha D2 V)"
  by (simp add: Hamiltonian_def is_mat_mat)

lemma index0_nth: "0 < length xs \<Longrightarrow> index0 xs = Inr (xs ! 0)"
  by (cases xs) (simp_all add: index0_def)

lemma np_T_first_row:
  assumes "0 < n" "is_mat n n A"
  shows "index0 (np_T A) = Inr (column A 0)"
proof -
  have "np_T A = mat n n (\<lambda>i j. A ! j ! i)"
    using assms by (simp add: np_T_def is_mat_nrows is_mat_ncols)
  then have "index0 (np_T A) = Inr (map (\<lambda>j. A ! j ! 0) [0..<n])"
    using assms(1) by (simp add: index0_nth length_mat nth_mat_row)
  also have "map (\<lambda>j. A ! j ! 0) [0..<n] = column A 0"
    using assms(2) by (auto simp: column_def is_mat_def intro!: nth_equalityI)
  finally show ?thesis .
qed

text \<open>What the solver returns when \<open>eigh\<close> returns a result of the right shape.\<close>

lemma HO_solver_returns:
  assumes "0 < n" "is_mat n n D2" "is_mat n n V"
    and "eigh (Hamiltonian n alpha D2 V) = Inr (evals, evects)"
    and "length evals = n" "is_mat n n evects"
  shows "HO_solver eigh alpha D2 V = Inr (evals ! 0, column evects 0)"
  using assms
  by (simp add: HO_solver_def np_add_Hamiltonian index0_nth np_T_first_row)

lemma sorted_first_le: "sorted xs \<Longrightarrow> x \<in> set xs \<Longrightarrow> xs ! 0 \<le> (x::real)"
  by (cases xs) auto


text \<open>
  C1. For every \<open>alpha > 0\<close> and every pair of symmetric arrays \<open>D2\<close> and \<open>V\<close> of the
  same shape \<open>(n, n)\<close>, \<open>n \<ge> 1\<close>, \<open>HO_solver\<close> returns a pair whose first component is the
  minimum eigenvalue of \<open>H = -D2 + alpha * V\<close> and whose second component is an
  eigenvector of \<open>H\<close> for that eigenvalue, given that \<open>np.linalg.eigh\<close> keeps its
  documented promise at \<open>H\<close>. The proof shows that \<open>H\<close> is symmetric, so that the
  promise applies, that \<open>evals[0]\<close> is the least of the ascending eigenvalues, and that
  \<open>evects.T[0]\<close> is the first column of \<open>evects\<close>.
\<close>

theorem HO_solver_ground_state:
  assumes "0 < alpha" and "0 < n" and "is_mat n n D2" and "is_mat n n V"
    and "np_T D2 = D2" and "np_T V = V"
    and "eigh_spec eigh (Hamiltonian n alpha D2 V)"
  shows "\<exists>lam v. HO_solver eigh alpha D2 V = Inr (lam, v) \<and>
           min_eigenvalue (Hamiltonian n alpha D2 V) lam \<and>
           eigenpair (Hamiltonian n alpha D2 V) lam v"
proof -
  let ?H = "Hamiltonian n alpha D2 V"
  have "is_mat (length ?H) (length ?H) ?H" "np_T ?H = ?H"
    using assms by (simp_all add: length_Hamiltonian is_mat_Hamiltonian Hamiltonian_symmetric)
  then obtain evals evects where e: "eigh ?H = Inr (evals, evects)"
    and r: "eigh_result ?H evals evects"
    using assms(7) unfolding eigh_spec_def by blast
  from r have len: "length evals = n" and shape: "is_mat n n evects" and srt: "sorted evals"
    and pair: "eigenpair ?H (evals ! 0) (column evects 0)"
    and all: "\<And>mu w. eigenpair ?H mu w \<Longrightarrow> mu \<in> set evals"
    using assms(2) by (auto simp: eigh_result_def length_Hamiltonian)
  have ret: "HO_solver eigh alpha D2 V = Inr (evals ! 0, column evects 0)"
    using assms(2,3,4) e len shape by (rule HO_solver_returns)
  have "evals ! 0 \<le> mu" if "eigenpair ?H mu w" for mu w
    using srt all [OF that] by (rule sorted_first_le)
  with pair have "min_eigenvalue ?H (evals ! 0)"
    unfolding min_eigenvalue_def by blast
  with ret pair show ?thesis by blast
qed

lemma sample_Hamiltonian:
  "Hamiltonian 2 1 sample_D2 (generate_potential_matrix [- 1, 1])
     = [[41 / 25, - 12 / 25], [- 12 / 25, 34 / 25]]"
  by (simp add: Hamiltonian_def sample_D2_def generate_potential_matrix_def np_diag_def
      mat_def upt_rec numeral_nat)

lemma sample_eigenvalues:
  assumes "eigenpair [[41 / 25, - 12 / 25], [- 12 / 25, 34 / 25]] lam v"
  shows "lam = 1 \<or> lam = 2"
proof -
  from assms obtain a b where v: "v = [a, b]"
    by (cases v; cases "tl v") (auto simp: eigenpair_def)
  from assms have e1: "41 / 25 * a + - 12 / 25 * b = lam * a"
    and e2: "- 12 / 25 * a + 34 / 25 * b = lam * b" and nz: "a \<noteq> 0 \<or> b \<noteq> 0"
    by (auto simp: v eigenpair_def mat_vec_def dot_def)
  have "a * ((lam - 1) * (lam - 2)) = 0" "b * ((lam - 1) * (lam - 2)) = 0"
    using e1 e2 by algebra+
  with nz show ?thesis by auto
qed

lemma sample_eigh_spec:
  "eigh_spec sample_eigh (Hamiltonian 2 1 sample_D2 (generate_potential_matrix [- 1, 1]))"
proof -
  let ?H = "[[41 / 25, - 12 / 25], [- 12 / 25, 34 / 25]] :: matrix"
  have "eigenpair ?H ([1, 2] ! k) (column [[3 / 5, - 4 / 5], [4 / 5, 3 / 5]] k)" if "k < 2" for k
  proof -
    from that have "k = 0 \<or> k = 1" by auto
    then show ?thesis
      by (auto simp: eigenpair_def column_def mat_vec_def dot_def)
  qed
  then have "eigh_result ?H [1, 2] [[3 / 5, - 4 / 5], [4 / 5, 3 / 5]]"
    using sample_eigenvalues by (auto simp: eigh_result_def is_mat_def)
  then show ?thesis
    by (simp add: eigh_spec_def sample_Hamiltonian sample_eigh_def)
qed

theorem HO_solver_ground_state_witness:
  "is_mat 2 2 sample_D2 \<and> is_mat 2 2 (generate_potential_matrix [- 1, 1]) \<and>
   np_T sample_D2 = sample_D2 \<and>
   np_T (generate_potential_matrix [- 1, 1]) = generate_potential_matrix [- 1, 1] \<and>
   eigh_spec sample_eigh (Hamiltonian 2 1 sample_D2 (generate_potential_matrix [- 1, 1])) \<and>
   HO_solver sample_eigh 1 sample_D2 (generate_potential_matrix [- 1, 1]) = Inr (1, [3 / 5, 4 / 5]) \<and>
   min_eigenvalue (Hamiltonian 2 1 sample_D2 (generate_potential_matrix [- 1, 1])) 1 \<and>
   eigenpair (Hamiltonian 2 1 sample_D2 (generate_potential_matrix [- 1, 1])) 1 [3 / 5, 4 / 5]"
proof -
  let ?V = "generate_potential_matrix [- 1, 1]"
  have V: "?V = [[1, 0], [0, 1]]"
    by (simp add: generate_potential_matrix_def np_diag_def mat_def upt_rec numeral_nat)
  have m: "is_mat 2 2 sample_D2" "is_mat 2 2 ?V"
    by (simp_all add: V is_mat_def sample_D2_def)
  have t: "np_T sample_D2 = sample_D2" "np_T ?V = ?V"
    by (simp_all add: V np_T_def sample_D2_def mat_def nrows_def ncols_def upt_rec numeral_nat)
  have r: "HO_solver sample_eigh 1 sample_D2 ?V = Inr (1, [3 / 5, 4 / 5])"
    using HO_solver_returns [OF _ m, of sample_eigh 1 "[1, 2]" "[[3 / 5, - 4 / 5], [4 / 5, 3 / 5]]"]
    by (simp add: sample_Hamiltonian sample_eigh_def is_mat_def column_def)
  have "0 < (1::real)" "0 < (2::nat)" by simp_all
  from HO_solver_ground_state [OF this m t sample_eigh_spec] r m t sample_eigh_spec
  show ?thesis by auto
qed


lemma is_diagonal_entry:
  "is_diagonal A \<Longrightarrow> i < length A \<Longrightarrow> j < length (A ! i) \<Longrightarrow> i \<noteq> j \<Longrightarrow> A ! i ! j = 0"
  by (auto simp: is_diagonal_def list_all_length)

lemma is_diagonal_symmetric:
  assumes "0 < n" "is_mat n n V" "is_diagonal V"
  shows "np_T V = V"
proof -
  have "np_T V = mat n n (\<lambda>i j. V ! j ! i)"
    using assms by (simp add: np_T_def is_mat_nrows is_mat_ncols)
  also have "\<dots> = mat n n (\<lambda>i j. V ! i ! j)"
  proof (rule mat_cong)
    fix i j assume "i < n" "j < n"
    then show "V ! j ! i = V ! i ! j"
      using assms(2,3) is_diagonal_entry [of V i j] is_diagonal_entry [of V j i]
      by (cases "i = j") (simp_all add: is_mat_def list_all_length)
  qed
  also have "\<dots> = V"
    using is_mat_eq_mat [OF assms(2)] by simp
  finally show ?thesis .
qed

text \<open>
  C7. For every valid input (\<open>alpha > 0\<close>, a symmetric \<open>D2\<close> and a diagonal \<open>V\<close> of the
  same shape \<open>(n, n)\<close>, \<open>n \<ge> 1\<close>), the eigenvector that \<open>HO_solver\<close> returns has
  Euclidean norm 1 within \<open>1e-9\<close>. The vector returned is the one the claim speaks of:
  it is column 0 of the array that \<open>np.linalg.eigh\<close> returned at
  \<open>H = -D2 + alpha * V\<close>, passed on without rescaling, it is an eigenvector of \<open>H\<close>, and
  its eigenvalue, the first component of the result, is the minimum eigenvalue of \<open>H\<close>.
  The normalisation is the work of \<open>np.linalg.eigh\<close>: that it keeps its documented
  promise at \<open>H\<close> and returns columns of norm 1 within the tolerance are the two
  hypotheses on the parameter.
\<close>

theorem HO_solver_unit_norm:
  assumes "0 < alpha" and "0 < n" and "is_mat n n D2" and "is_mat n n V"
    and "np_T D2 = D2" and "is_diagonal V"
    and "eigh_spec eigh (Hamiltonian n alpha D2 V)"
    and "\<forall>evals evects. eigh (Hamiltonian n alpha D2 V) = Inr (evals, evects)
           \<longrightarrow> unit_columns (1 / 10 ^ 9) evects"
  shows "\<exists>lam v evals evects.
           eigh (Hamiltonian n alpha D2 V) = Inr (evals, evects) \<and>
           HO_solver eigh alpha D2 V = Inr (lam, v) \<and>
           lam = evals ! 0 \<and> v = column evects 0 \<and>
           min_eigenvalue (Hamiltonian n alpha D2 V) lam \<and>
           eigenpair (Hamiltonian n alpha D2 V) lam v \<and>
           \<bar>norm2 v - 1\<bar> \<le> 1 / 10 ^ 9"
proof -
  let ?H = "Hamiltonian n alpha D2 V"
  have "np_T V = V"
    using assms(2,4,6) by (rule is_diagonal_symmetric)
  then have "is_mat (length ?H) (length ?H) ?H" "np_T ?H = ?H"
    using assms by (simp_all add: length_Hamiltonian is_mat_Hamiltonian Hamiltonian_symmetric)
  then obtain evals evects where e: "eigh ?H = Inr (evals, evects)"
    and r: "eigh_result ?H evals evects"
    using assms(7) unfolding eigh_spec_def by blast
  from r have len: "length evals = n" and shape: "is_mat n n evects" and srt: "sorted evals"
    and pair: "eigenpair ?H (evals ! 0) (column evects 0)"
    and all: "\<And>mu w. eigenpair ?H mu w \<Longrightarrow> mu \<in> set evals"
    using assms(2) by (auto simp: eigh_result_def length_Hamiltonian)
  have ret: "HO_solver eigh alpha D2 V = Inr (evals ! 0, column evects 0)"
    using assms(2,3,4) e len shape by (rule HO_solver_returns)
  have "evals ! 0 \<le> mu" if "eigenpair ?H mu w" for mu w
    using srt all [OF that] by (rule sorted_first_le)
  with pair have least: "min_eigenvalue ?H (evals ! 0)"
    unfolding min_eigenvalue_def by blast
  have "unit_columns (1 / 10 ^ 9) evects"
    using assms(8) e by blast
  then have "\<bar>norm2 (column evects 0) - 1\<bar> \<le> 1 / 10 ^ 9"
    using assms(2) shape by (simp add: unit_columns_def is_mat_ncols)
  with e ret least pair show ?thesis by blast
qed

theorem HO_solver_unit_norm_witness:
  "is_mat 2 2 sample_D2 \<and> is_mat 2 2 (generate_potential_matrix [- 1, 1]) \<and>
   np_T sample_D2 = sample_D2 \<and> is_diagonal (generate_potential_matrix [- 1, 1]) \<and>
   eigh_spec sample_eigh (Hamiltonian 2 1 sample_D2 (generate_potential_matrix [- 1, 1])) \<and>
   sample_eigh (Hamiltonian 2 1 sample_D2 (generate_potential_matrix [- 1, 1]))
     = Inr ([1, 2], [[3 / 5, - 4 / 5], [4 / 5, 3 / 5]]) \<and>
   unit_columns (1 / 10 ^ 9) [[3 / 5, - 4 / 5], [4 / 5, 3 / 5]] \<and>
   HO_solver sample_eigh 1 sample_D2 (generate_potential_matrix [- 1, 1]) = Inr (1, [3 / 5, 4 / 5]) \<and>
   column [[3 / 5, - 4 / 5], [4 / 5, 3 / 5]] 0 = [3 / 5, 4 / 5] \<and>
   eigenpair (Hamiltonian 2 1 sample_D2 (generate_potential_matrix [- 1, 1])) 1 [3 / 5, 4 / 5] \<and>
   min_eigenvalue (Hamiltonian 2 1 sample_D2 (generate_potential_matrix [- 1, 1])) 1 \<and>
   norm2 [3 / 5, 4 / 5] = 1"
proof -
  let ?V = "generate_potential_matrix [- 1, 1]"
  let ?H = "Hamiltonian 2 1 sample_D2 ?V"
  have V: "?V = [[1, 0], [0, 1]]"
    by (simp add: generate_potential_matrix_def np_diag_def mat_def upt_rec numeral_nat)
  have m: "is_mat 2 2 sample_D2" "is_mat 2 2 ?V"
    by (simp_all add: V is_mat_def sample_D2_def)
  have t: "np_T sample_D2 = sample_D2"
    by (simp add: np_T_def sample_D2_def mat_def nrows_def ncols_def upt_rec numeral_nat)
  have d: "is_diagonal ?V"
    by (simp add: V is_diagonal_def upt_rec numeral_nat)
  have n1: "norm2 [3 / 5, 4 / 5] = 1" and n2: "norm2 [- 4 / 5, 3 / 5] = 1"
    by (simp_all add: norm2_def dot_def)
  have c0: "column [[3 / 5, - 4 / 5], [4 / 5, 3 / 5]] 0 = [3 / 5, 4 / 5 :: real]"
    by (simp add: column_def)
  have u: "unit_columns (1 / 10 ^ 9) [[3 / 5, - 4 / 5], [4 / 5, 3 / 5]]"
    unfolding unit_columns_def
  proof (intro allI impI)
    fix k assume "k < ncols [[3 / 5, - 4 / 5], [4 / 5, 3 / 5 :: real]]"
    then have "k = 0 \<or> k = 1" by (auto simp: ncols_def)
    then show "\<bar>norm2 (column [[3 / 5, - 4 / 5], [4 / 5, 3 / 5]] k) - 1\<bar> \<le> 1 / 10 ^ 9"
      using n1 n2 by (auto simp: column_def)
  qed
  have se: "sample_eigh ?H = Inr ([1, 2], [[3 / 5, - 4 / 5], [4 / 5, 3 / 5]])"
    by (simp add: sample_Hamiltonian sample_eigh_def)
  have u': "\<forall>evals evects. sample_eigh ?H = Inr (evals, evects)
        \<longrightarrow> unit_columns (1 / 10 ^ 9) evects"
    using u se by simp
  have "0 < (1::real)" "0 < (2::nat)" by simp_all
  from HO_solver_unit_norm [OF this m t d sample_eigh_spec u']
  obtain lam v evals evects where
    "sample_eigh ?H = Inr (evals, evects)"
    "HO_solver sample_eigh 1 sample_D2 ?V = Inr (lam, v)"
    "lam = evals ! 0" "v = column evects 0"
    "min_eigenvalue ?H lam" "eigenpair ?H lam v"
    by blast
  with se c0 have "HO_solver sample_eigh 1 sample_D2 ?V = Inr (1, [3 / 5, 4 / 5])"
    "min_eigenvalue ?H 1" "eigenpair ?H 1 [3 / 5, 4 / 5]"
    by simp_all
  with m t d u n1 c0 se sample_eigh_spec show ?thesis by simp
qed







section \<open>The solver and the arrays of its caller\<close>

text \<open>The store after a call: what was allocated before the call is unchanged.\<close>

lemma HO_solver_st_cells:
  "a < fresh s \<Longrightarrow> cells (snd (HO_solver_st eigh alpha D2Mat vpot s)) a = cells s a"
  by (simp add: HO_solver_st_def alloc_def Let_def split: sum.splits prod.splits)

lemma HO_solver_st_fresh:
  "fresh s \<le> fresh (snd (HO_solver_st eigh alpha D2Mat vpot s))"
  by (simp add: HO_solver_st_def alloc_def Let_def split: sum.splits prod.splits)

text \<open>The result of a call is the result of the solver on the two arrays read.\<close>

lemma HO_solver_st_result:
  "D2Mat < fresh s \<Longrightarrow> vpot < fresh s \<Longrightarrow>
   fst (HO_solver_st eigh alpha D2Mat vpot s) = HO_solver eigh alpha (cells s D2Mat) (cells s vpot)"
  by (simp add: HO_solver_st_def HO_solver_def alloc_def Let_def split: sum.splits prod.splits)

text \<open>
  C8. \<open>HO_solver\<close> has no side effect: after a call on the arrays at the allocated
  addresses \<open>D2Mat\<close> and \<open>vpot\<close>, whether it returns or raises, both arrays are unchanged
  entry by entry, and so is every other array that was allocated before the call.
\<close>

theorem HO_solver_st_no_side_effect:
  assumes "D2Mat < fresh s" and "vpot < fresh s"
  shows "cells (snd (HO_solver_st eigh alpha D2Mat vpot s)) D2Mat = cells s D2Mat \<and>
         cells (snd (HO_solver_st eigh alpha D2Mat vpot s)) vpot = cells s vpot \<and>
         (\<forall>a<fresh s. cells (snd (HO_solver_st eigh alpha D2Mat vpot s)) a = cells s a)"
  using assms by (simp add: HO_solver_st_cells)

lemma sample_store_run:
  "fst (HO_solver_st sample_eigh 1 0 1 sample_store) = Inr (1, [3 / 5, 4 / 5])"
proof -
  have V: "generate_potential_matrix [- 1, 1] = [[1, 0], [0, 1]]"
    by (simp add: generate_potential_matrix_def np_diag_def mat_def upt_rec numeral_nat)
  have m: "is_mat 2 2 sample_D2" "is_mat 2 2 (generate_potential_matrix [- 1, 1])"
    by (simp_all add: V is_mat_def sample_D2_def)
  have "HO_solver sample_eigh 1 sample_D2 (generate_potential_matrix [- 1, 1])
          = Inr (1, [3 / 5, 4 / 5])"
    using HO_solver_returns [OF _ m, of sample_eigh 1 "[1, 2]" "[[3 / 5, - 4 / 5], [4 / 5, 3 / 5]]"]
    by (simp add: sample_Hamiltonian sample_eigh_def is_mat_def column_def)
  then show ?thesis
    using HO_solver_st_result [of 0 sample_store 1 sample_eigh 1]
    by (simp add: sample_store_def)
qed

theorem HO_solver_st_no_side_effect_witness:
  "0 < fresh sample_store \<and> 1 < fresh sample_store \<and>
   fst (HO_solver_st sample_eigh 1 0 1 sample_store) = Inr (1, [3 / 5, 4 / 5]) \<and>
   cells (snd (HO_solver_st sample_eigh 1 0 1 sample_store)) 0 = sample_D2 \<and>
   cells (snd (HO_solver_st sample_eigh 1 0 1 sample_store)) 1 = generate_potential_matrix [- 1, 1]"
  using HO_solver_st_no_side_effect [of 0 sample_store 1 sample_eigh 1] sample_store_run
  by (simp add: sample_store_def)

text \<open>
  C9. \<open>HO_solver\<close> is deterministic: a second call on the same arguments, made in the
  store that the first call left, returns the same outcome as the first (the same
  eigenvalue and the same eigenvector, or the same error). Nothing that a call leaves
  behind is read by the next one.
\<close>

theorem HO_solver_st_deterministic:
  assumes "D2Mat < fresh s" and "vpot < fresh s"
  shows "fst (HO_solver_st eigh alpha D2Mat vpot (snd (HO_solver_st eigh alpha D2Mat vpot s)))
           = fst (HO_solver_st eigh alpha D2Mat vpot s)"
proof -
  let ?s' = "snd (HO_solver_st eigh alpha D2Mat vpot s)"
  have "D2Mat < fresh ?s'" "vpot < fresh ?s'"
    using assms HO_solver_st_fresh [of s eigh alpha D2Mat vpot] by simp_all
  then have "fst (HO_solver_st eigh alpha D2Mat vpot ?s')
               = HO_solver eigh alpha (cells ?s' D2Mat) (cells ?s' vpot)"
    by (rule HO_solver_st_result)
  also have "\<dots> = HO_solver eigh alpha (cells s D2Mat) (cells s vpot)"
    using assms by (simp add: HO_solver_st_cells)
  also have "\<dots> = fst (HO_solver_st eigh alpha D2Mat vpot s)"
    using assms by (simp add: HO_solver_st_result)
  finally show ?thesis .
qed

theorem HO_solver_st_deterministic_witness:
  "0 < fresh sample_store \<and> 1 < fresh sample_store \<and>
   fst (HO_solver_st sample_eigh 1 0 1 sample_store) = Inr (1, [3 / 5, 4 / 5]) \<and>
   fst (HO_solver_st sample_eigh 1 0 1 (snd (HO_solver_st sample_eigh 1 0 1 sample_store)))
     = Inr (1, [3 / 5, 4 / 5])"
  using HO_solver_st_deterministic [of 0 sample_store 1 sample_eigh 1] sample_store_run
  by (simp add: sample_store_def)

end
